theory Spec2Isabelle
  imports Complex_Main
begin

section \<open>Values of the runtime\<close>

text \<open>
  \<^verbatim>\<open>server.js\<close> is one Express application: a cross-origin policy, a request logger, five
  JSON routes, a static directory, a wildcard route for the single-page application, a 404
  tail and an error tail. The embedding keeps the source's names.

  A JavaScript string is a \<open>string\<close>; a value that may be \<^verbatim>\<open>undefined\<close> (an unset
  environment variable, an absent header, an absent property) is a \<open>string option\<close>.
  \<^verbatim>\<open>process.env\<close> is a map from variable names to strings.
\<close>

type_synonym env = "string \<rightharpoonup> string"

text \<open>
  Truthiness of a string-or-undefined value: \<^verbatim>\<open>undefined\<close> and the empty string are
  falsy, every other string is truthy. \<open>js_or v d\<close> is \<^verbatim>\<open>v || d\<close>.
\<close>

fun truthy :: "string option \<Rightarrow> bool" where
  "truthy None = False"
| "truthy (Some s) = (s \<noteq> [])"

fun js_or :: "string option \<Rightarrow> string \<Rightarrow> string" where
  "js_or None d = d"
| "js_or (Some s) d = (if s = [] then d else s)"

text \<open>JSON bodies. An object keeps its keys in the order the source writes them.\<close>

datatype json =
    JBool bool
  | JNum real
  | JStr string
  | JArr "json list"
  | JObj "(string \<times> json) list"

fun field :: "string \<Rightarrow> json \<Rightarrow> json option" where
  "field k (JObj kvs) = map_of kvs k"
| "field k _ = None"

text \<open>
  An error object: its \<^verbatim>\<open>name\<close>, its \<^verbatim>\<open>message\<close>, its \<^verbatim>\<open>status\<close> property when it has
  one, and its \<^verbatim>\<open>stack\<close>.
\<close>

record js_error =
  name :: string
  message :: string
  status :: "int option"
  stack :: string

text \<open>
  \<^verbatim>\<open>new Error(m)\<close>: no status; the stack is the header line followed by the call frames,
  which the runtime supplies.
\<close>

definition new_Error :: "string \<Rightarrow> string \<Rightarrow> js_error" where
  "new_Error frames m =
     \<lparr>name = ''Error'', message = m, status = None, stack = ''Error: '' @ m @ frames\<rparr>"

text \<open>Console output: one entry per call, with the arguments of the call.\<close>

datatype logarg = S string | E js_error

datatype logline = Log "logarg list" | LogError "logarg list"

text \<open>
  The request, as far as the program and the packages it calls read it: \<^verbatim>\<open>req.method\<close>
  (the upper-case token the HTTP parser delivers), \<^verbatim>\<open>req.path\<close>, \<^verbatim>\<open>req.headers.origin\<close>,
  and what the two body parsers of lines 41 and 42 make of the body (the error they raise,
  if any). \<open>conditional\<close> is \<open>None\<close> for a request with none of the headers
  \<^verbatim>\<open>If-Match\<close>, \<^verbatim>\<open>If-Unmodified-Since\<close>, \<^verbatim>\<open>If-None-Match\<close>, \<^verbatim>\<open>If-Modified-Since\<close> and
  \<^verbatim>\<open>Range\<close>; for a request with any of them it is \<open>Some f\<close>, where \<open>f\<close> is the result of
  the test behind the framework's \<^verbatim>\<open>req.fresh\<close>: whether \<^verbatim>\<open>If-None-Match\<close> and
  \<^verbatim>\<open>If-Modified-Since\<close> match the answer about to be sent.
\<close>

record request =
  req_method :: string
  path :: string
  origin :: "string option"
  jsonError :: "js_error option"
  formError :: "js_error option"
  conditional :: "bool option"

definition fresh :: "request \<Rightarrow> bool" where
  "fresh req = (conditional req = Some True)"

text \<open>A response body; \<open>NoBody\<close> is a response sent without one.\<close>

datatype body = Json json | Text string | File string | NoBody

record response =
  code :: int
  payload :: body

text \<open>\<^verbatim>\<open>res.json(v)\<close> leaves the status at 200 unless \<^verbatim>\<open>res.status\<close> was called.\<close>

definition res_json :: "json \<Rightarrow> response" where
  "res_json v = \<lparr>code = 200, payload = Json v\<rparr>"

definition res_status_json :: "int \<Rightarrow> json \<Rightarrow> response" where
  "res_status_json c v = \<lparr>code = c, payload = Json v\<rparr>"

fun body_field :: "string \<Rightarrow> response \<Rightarrow> json option" where
  "body_field k r = (case payload r of Json v \<Rightarrow> field k v | _ \<Rightarrow> None)"

text \<open>
  Non-ASCII characters of the source's log texts, as their UTF-8 bytes: the telephone
  receiver (U+1F4DE), the cross mark (U+274C) and the collision sign (U+1F4A5).
\<close>

definition collision_sign :: string where
  "collision_sign = [CHR 0xF0, CHR 0x9F, CHR 0x92, CHR 0xA5]"

definition receiver_sign :: string where
  "receiver_sign = [CHR 0xF0, CHR 0x9F, CHR 0x93, CHR 0x9E]"

definition cross_mark :: string where
  "cross_mark = [CHR 0xE2, CHR 0x9D, CHR 0x8C]"

section \<open>Cross-origin policy (lines 11 to 37)\<close>

text \<open>
  The array literal of line 11 has four entries, the third being \<^verbatim>\<open>process.env.FRONTEND_URL\<close>;
  \<^verbatim>\<open>.filter(Boolean)\<close> keeps the truthy ones, in order.
\<close>

definition allowedOrigins :: "env \<Rightarrow> string list" where
  "allowedOrigins env =
     map the (filter truthy
       [Some ''http://localhost:3000'',
        Some ''http://localhost:5000'',
        env ''FRONTEND_URL'',
        Some ''https://reaxapp.vercel.app/''])"

text \<open>
  \<^verbatim>\<open>corsOptions.origin\<close>: the result is what was logged and what the callback received,
  \<open>Inr True\<close> for \<^verbatim>\<open>callback(null, true)\<close> and \<open>Inl e\<close> for \<^verbatim>\<open>callback(e)\<close>.
  \<^verbatim>\<open>allowedOrigins.indexOf(origin) !== -1\<close> is membership in the array.
\<close>

definition corsOrigin :: "env \<Rightarrow> string \<Rightarrow> string option \<Rightarrow> logline list \<times> (js_error + bool)" where
  "corsOrigin env frames orig =
     (if \<not> truthy orig then ([], Inr True)
      else if the orig \<in> set (allowedOrigins env) then ([], Inr True)
      else if env ''NODE_ENV'' = Some ''development'' then ([], Inr True)
      else ([Log [S ''Blocked origin:'', S (the orig)]],
            Inl (new_Error frames ''Not allowed by CORS'')))"

section \<open>Route handlers (lines 45 to 111)\<close>

text \<open>
  Each handler takes the environment, the reading of the clock it makes
  (\<^verbatim>\<open>new Date().toISOString()\<close>) and the request, and returns its console output and its
  response.
\<close>

definition logger :: "string \<Rightarrow> request \<Rightarrow> logline list" where
  "logger now req =
     [Log [S (''['' @ now @ ''] '' @ req_method req @ '' '' @ path req @ '' - Origin: ''
              @ js_or (origin req) ''no-origin'')]]"

definition root :: "env \<Rightarrow> string \<Rightarrow> request \<Rightarrow> logline list \<times> response" where
  "root env now req =
     ([], res_json (JObj
        [(''status'', JStr ''OK''),
         (''message'', JStr ''Backend server is running successfully''),
         (''timestamp'', JStr now),
         (''environment'', JStr (js_or (env ''NODE_ENV'') ''development'')),
         (''endpoints'', JObj
            [(''health'', JStr ''/health''),
             (''phoneNumber'', JStr ''/okok''),
             (''config'', JStr ''/api/config'')])]))"

definition health :: "env \<Rightarrow> string \<Rightarrow> real \<Rightarrow> request \<Rightarrow> logline list \<times> response" where
  "health env now uptime req =
     ([], res_json (JObj
        [(''status'', JStr ''OK''),
         (''message'', JStr ''Server is healthy and running''),
         (''timestamp'', JStr now),
         (''uptime'', JNum uptime),
         (''environment'', JStr (js_or (env ''NODE_ENV'') ''development''))]))"

definition okok :: "env \<Rightarrow> string \<Rightarrow> request \<Rightarrow> logline list \<times> response" where
  "okok env now req =
     (let phoneNumber = js_or (env ''PHONE_NUMBER'') ''855-550-2644'' in
      ([Log [S (receiver_sign @ '' Phone number requested from:''),
             S (js_or (origin req) ''unknown'')]],
       res_json (JObj
        [(''tfn'', JStr phoneNumber),
         (''timestamp'', JStr now)])))"

definition api_config :: "env \<Rightarrow> string \<Rightarrow> request \<Rightarrow> logline list \<times> response" where
  "api_config env now req =
     ([], res_json (JObj
        [(''enableFullscreenLock'', JBool True),
         (''blockEscapeKey'', JBool True),
         (''blockF11Key'', JBool True),
         (''blockAllKeyboardShortcuts'', JBool True),
         (''reEnterFullscreenOnExit'', JBool True),
         (''phoneNumber'', JStr (js_or (env ''PHONE_NUMBER'') ''855-550-2644'')),
         (''timestamp'', JStr now)]))"

definition api_test :: "env \<Rightarrow> string \<Rightarrow> request \<Rightarrow> logline list \<times> response" where
  "api_test env now req =
     ([], res_json (JObj
        [(''success'', JBool True),
         (''message'', JStr ''Backend is accessible''),
         (''receivedFrom'', JStr (js_or (origin req) ''unknown'')),
         (''timestamp'', JStr now)]))"

section \<open>Sending a response\<close>

text \<open>
  What a handler does with a request: it passes the request on (\<^verbatim>\<open>next()\<close>), it passes an
  error on (\<^verbatim>\<open>next(err)\<close>, or an exception thrown while the handler runs, which the
  framework catches and passes on), it ends the request with a response, or an exception
  is thrown later, in a callback the framework does not guard.
\<close>

datatype step = Next | Fail js_error | Reply response | Uncaught js_error

text \<open>Decimal digits of a number, for the runtime's messages.\<close>

fun digits :: "nat \<Rightarrow> string" where
  "digits n =
     (if n < 10 then [''0123456789'' ! n]
      else digits (n div 10) @ [''0123456789'' ! (n mod 10)])"

definition show_int :: "int \<Rightarrow> string" where
  "show_int i = (if i < 0 then ''-'' @ digits (nat (- i)) else digits (nat i))"

text \<open>The runtime refuses a status code outside 100 to 999 when the head is written.\<close>

definition invalid_status_code :: "string \<Rightarrow> int \<Rightarrow> js_error" where
  "invalid_status_code frames s =
     \<lparr>name = ''RangeError'', message = ''Invalid status code: '' @ show_int s,
      status = None,
      stack = ''RangeError [ERR_HTTP_INVALID_STATUS_CODE]: Invalid status code: ''
              @ show_int s @ frames\<rparr>"

text \<open>
  Statuses that go out without a body: 1xx, 204 and 304, and 205 (with Express 4.18 or
  later).
\<close>

definition bodiless :: "int \<Rightarrow> bool" where
  "bodiless s = (s < 200 \<or> s = 204 \<or> s = 205 \<or> s = 304)"

definition handles_get :: "string \<Rightarrow> bool" where
  "handles_get m = (m = ''GET'' \<or> m = ''HEAD'')"

text \<open>
  \<^verbatim>\<open>res.status(s).json(v)\<close> and \<^verbatim>\<open>res.status(s).send(text)\<close>, given the response \<open>r\<close> the
  handler composed. A GET or HEAD request that is fresh is answered 304 in place of a 2xx
  status; a status outside 100 to 999 makes the call throw; a HEAD request and a bodiless
  status are answered without the body; otherwise \<open>r\<close> is sent as it is.
\<close>

definition res_send :: "string \<Rightarrow> request \<Rightarrow> response \<Rightarrow> step" where
  "res_send frames req r =
     (let s = (if handles_get (req_method req) \<and> fresh req
                  \<and> ((200 \<le> code r \<and> code r < 300) \<or> code r = 304)
               then 304 else code r)
      in if s < 100 \<or> 999 < s then Fail (invalid_status_code frames s)
         else if req_method req = ''HEAD'' \<or> bodiless s
           then Reply \<lparr>code = s, payload = NoBody\<rparr>
         else Reply r)"

text \<open>A handler that composes a response and sends it.\<close>

definition sending ::
  "string \<Rightarrow> (request \<Rightarrow> logline list \<times> response) \<Rightarrow> request \<Rightarrow> logline list \<times> step" where
  "sending frames f req = (fst (f req), res_send frames req (snd (f req)))"

section \<open>The packages in front of the routes (lines 40 to 42)\<close>

text \<open>
  \<^verbatim>\<open>cors(corsOptions)\<close>: the package calls \<^verbatim>\<open>corsOptions.origin\<close> with the origin header and
  passes its error on; for an allowed request it answers an OPTIONS request itself, with
  \<^verbatim>\<open>optionsSuccessStatus\<close> and an empty body, and lets every other request through. Response
  headers are not modelled.
\<close>

definition cors :: "env \<Rightarrow> string \<Rightarrow> request \<Rightarrow> logline list \<times> step" where
  "cors env frames req =
     (case corsOrigin env frames (origin req) of
        (lg, Inl e) \<Rightarrow> (lg, Fail e)
      | (lg, Inr allow) \<Rightarrow>
          if \<not> allow then (lg, Next)
          else if req_method req = ''OPTIONS'' then (lg, Reply \<lparr>code = 200, payload = Text []\<rparr>)
          else (lg, Next))"

text \<open>\<^verbatim>\<open>express.json()\<close> and \<^verbatim>\<open>express.urlencoded()\<close>: pass the request on, or the error.\<close>

definition body_parser :: "js_error option \<Rightarrow> logline list \<times> step" where
  "body_parser e = (case e of None \<Rightarrow> ([], Next) | Some err \<Rightarrow> ([], Fail err))"

section \<open>Static files, the wildcard route and the two tails (lines 116 to 149)\<close>

text \<open>
  What a request meets outside the program: the reading of the clock made by the logger
  and the one made by the handler that answers, the uptime of the process, what
  \<^verbatim>\<open>express.static\<close> does with a GET or HEAD request for a path (it answers, or passes the
  request or an error on), the outcome of reading \<^verbatim>\<open>build/index.html\<close> before the response
  starts (\<open>Inr c\<close> when it is read with content \<open>c\<close>, \<open>Inl e\<close> when that fails with \<open>e\<close>),
  a failure of the transfer after the response has started (the client going away, a
  write error), what \<^verbatim>\<open>res.sendFile\<close> makes of a conditional request for a readable
  document, and the call frames of an error created now.
\<close>

datatype send_result = Sent response | Refused js_error | Aborted js_error

record world =
  logTime :: string
  respTime :: string
  uptime :: real
  assets :: "string \<Rightarrow> step"
  entryDoc :: "js_error + string"
  interrupted :: "js_error option"
  revalidation :: send_result
  frames :: string

text \<open>
  \<^verbatim>\<open>res.sendFile(filePath, cb)\<close>: \<open>Sent r\<close> when the package answers with \<open>r\<close> and \<open>cb\<close>
  sees no error, \<open>Refused e\<close> when it calls \<open>cb\<close> with \<open>e\<close> before anything was sent,
  \<open>Aborted e\<close> when it calls \<open>cb\<close> with \<open>e\<close> after the response had started. A readable
  document is sent whole with status 200 to a GET request that is not conditional; a HEAD
  request gets the head only; the answer to a conditional request (304, 206, or a 412 or
  416 error) is an input.
\<close>

definition sendFile :: "world \<Rightarrow> request \<Rightarrow> send_result" where
  "sendFile w req =
     (case entryDoc w of
        Inl err \<Rightarrow> Refused err
      | Inr content \<Rightarrow>
          if conditional req \<noteq> None then revalidation w
          else if req_method req = ''HEAD'' then Sent \<lparr>code = 200, payload = NoBody\<rparr>
          else (case interrupted w of
                  Some err \<Rightarrow> Aborted err
                | None \<Rightarrow> Sent \<lparr>code = 200, payload = File content\<rparr>))"

text \<open>Setting a header once the head has been written throws.\<close>

definition headers_sent :: "string \<Rightarrow> js_error" where
  "headers_sent fr =
     \<lparr>name = ''Error'',
      message = ''Cannot set headers after they are sent to the client'',
      status = None,
      stack = ''Error [ERR_HTTP_HEADERS_SENT]: Cannot set headers after they are sent to the client''
              @ fr\<rparr>"

text \<open>
  The wildcard route's handler (lines 119 to 127). Its callback logs the error and calls
  \<^verbatim>\<open>res.status(500).send("Server Error")\<close>; when the response had already started, that
  call throws inside the callback.
\<close>

definition spa_fallback :: "world \<Rightarrow> request \<Rightarrow> logline list \<times> step" where
  "spa_fallback w req =
     (case sendFile w req of
        Sent r \<Rightarrow> ([], Reply r)
      | Refused err \<Rightarrow>
          ([LogError [S ''Error sending index.html:'', E err]],
           res_send (frames w) req \<lparr>code = 500, payload = Text ''Server Error''\<rparr>)
      | Aborted err \<Rightarrow>
          ([LogError [S ''Error sending index.html:'', E err]],
           Uncaught (headers_sent (frames w))))"

definition availableEndpoints :: "string list" where
  "availableEndpoints = [''/'', ''/health'', ''/okok'', ''/api/config'', ''/api/test'']"

definition not_found :: "request \<Rightarrow> logline list \<times> response" where
  "not_found req =
     ([Log [S (cross_mark @ '' 404 Not Found:''), S (req_method req), S (path req)]],
      res_status_json 404 (JObj
        [(''error'', JStr ''Not Found''),
         (''message'', JStr (''Cannot '' @ req_method req @ '' '' @ path req)),
         (''availableEndpoints'', JArr (map JStr availableEndpoints))]))"

text \<open>\<^verbatim>\<open>err.status || 500\<close>: an absent status and the number 0 are falsy.\<close>

fun status_or :: "int option \<Rightarrow> int \<Rightarrow> int" where
  "status_or None d = d"
| "status_or (Some s) d = (if s = 0 then d else s)"

text \<open>
  The global error handler (lines 140 to 149): two console lines, then
  \<^verbatim>\<open>res.status(err.status || 500).json(...)\<close>.
\<close>

definition error_handler ::
  "env \<Rightarrow> string \<Rightarrow> string \<Rightarrow> js_error \<Rightarrow> request \<Rightarrow> logline list \<times> step" where
  "error_handler env fr now err req =
     ([LogError [S (cross_mark @ '' Server Error:''), S (message err)],
       LogError [S (stack err)]],
      res_send fr req
        (res_status_json (status_or (status err) 500) (JObj
          [(''error'', JStr ''Internal Server Error''),
           (''message'', JStr (if env ''NODE_ENV'' = Some ''development''
                                then message err else ''Something went wrong'')),
           (''timestamp'', JStr now)])))"

text \<open>
  The handler of \<^verbatim>\<open>uncaughtException\<close> (lines 190 to 195): three console lines, then
  \<^verbatim>\<open>process.exit(1)\<close>. The result is the output and the exit code.
\<close>

definition uncaughtException :: "js_error \<Rightarrow> logline list \<times> int" where
  "uncaughtException err =
     ([LogError [S (collision_sign @ '' UNCAUGHT EXCEPTION! Shutting down...'')],
       LogError [S (name err), S (message err)],
       LogError [S (stack err)]],
      1)"

section \<open>The middleware chain\<close>

text \<open>
  Express (version 4) keeps the layers in the order of their registration and offers a
  request to each in turn. \<^verbatim>\<open>app.use(f)\<close> sees every request, \<^verbatim>\<open>app.get(p, f)\<close> the GET and
  HEAD requests whose path matches \<open>p\<close>, and a four-argument \<^verbatim>\<open>app.use\<close> only sees errors;
  while an error is passed on, the other layers are skipped.
\<close>

datatype layer =
    Use "request \<Rightarrow> logline list \<times> step"
  | Get string "request \<Rightarrow> logline list \<times> step"
  | UseError "js_error \<Rightarrow> request \<Rightarrow> logline list \<times> step"

datatype handler =
    Cors | JsonParser | UrlencodedParser | Logger
  | Root | Health | Okok | ApiConfig | ApiTest
  | Static | SpaFallback | NotFound | ErrorHandler

text \<open>
  A request is served by one of the layers, or it falls off the end of the chain (to the
  framework's own final handler), possibly carrying an error, or the process exits while
  it is being handled.
\<close>

datatype outcome = Served handler response | Unhandled "js_error option" | Exited int

fun served_by :: "outcome \<Rightarrow> handler option" where
  "served_by (Served h r) = Some h"
| "served_by (Unhandled e) = None"
| "served_by (Exited c) = None"

text \<open>
  The path of a route without parameters is matched without regard to the case of ASCII
  letters and with an optional trailing slash (the router's defaults).
\<close>

definition lowerc :: "char \<Rightarrow> char" where
  "lowerc c =
     (case map_of (zip ''ABCDEFGHIJKLMNOPQRSTUVWXYZ'' ''abcdefghijklmnopqrstuvwxyz'') c of
        Some d \<Rightarrow> d
      | None \<Rightarrow> c)"

definition strip_slash :: "string \<Rightarrow> string" where
  "strip_slash s = (if s \<noteq> [] \<and> last s = CHR ''/'' then butlast s else s)"

definition path_matches :: "string \<Rightarrow> string \<Rightarrow> bool" where
  "path_matches pat p =
     (map lowerc p = map lowerc (strip_slash pat)
      \<or> map lowerc p = map lowerc (strip_slash pat) @ ''/'')"

text \<open>
  \<^verbatim>\<open>decodeURIComponent\<close> succeeds on a string when every \<^verbatim>\<open>%\<close> is followed by two
  hexadecimal digits and the escaped octets of 0x80 and above form well-formed UTF-8
  sequences, each octet of a sequence being escaped.
\<close>

definition hex_digit :: "char \<Rightarrow> bool" where
  "hex_digit c = (c \<in> set ''0123456789abcdefABCDEF'')"

definition hex_value :: "char \<Rightarrow> nat" where
  "hex_value c =
     (case map_of (zip ''0123456789abcdef'' [0 ..< 16]) (lowerc c) of
        Some n \<Rightarrow> n
      | None \<Rightarrow> 0)"

datatype uri_item = Raw char | Octet nat

fun unescape :: "string \<Rightarrow> uri_item list option" where
  "unescape [] = Some []"
| "unescape (c # cs) =
     (if c = CHR ''%''
      then (case cs of
              h # l # rest \<Rightarrow>
                if hex_digit h \<and> hex_digit l
                then map_option (Cons (Octet (16 * hex_value h + hex_value l))) (unescape rest)
                else None
            | _ \<Rightarrow> None)
      else map_option (Cons (Raw c)) (unescape cs))"

fun trail :: "uri_item \<Rightarrow> nat \<Rightarrow> nat \<Rightarrow> bool" where
  "trail (Octet b) lo hi = (lo \<le> b \<and> b \<le> hi)"
| "trail (Raw c) lo hi = False"

fun well_formed :: "uri_item list \<Rightarrow> bool" where
  "well_formed [] = True"
| "well_formed (Raw c # xs) = well_formed xs"
| "well_formed (Octet b # xs) =
     (if b < 0x80 then well_formed xs
      else if 0xC2 \<le> b \<and> b \<le> 0xDF
        then (case xs of
                x1 # r \<Rightarrow> trail x1 0x80 0xBF \<and> well_formed r
              | _ \<Rightarrow> False)
      else if 0xE0 \<le> b \<and> b \<le> 0xEF
        then (case xs of
                x1 # x2 # r \<Rightarrow>
                  trail x1 (if b = 0xE0 then 0xA0 else 0x80) (if b = 0xED then 0x9F else 0xBF)
                  \<and> trail x2 0x80 0xBF \<and> well_formed r
              | _ \<Rightarrow> False)
      else if 0xF0 \<le> b \<and> b \<le> 0xF4
        then (case xs of
                x1 # x2 # x3 # r \<Rightarrow>
                  trail x1 (if b = 0xF0 then 0x90 else 0x80) (if b = 0xF4 then 0x8F else 0xBF)
                  \<and> trail x2 0x80 0xBF \<and> trail x3 0x80 0xBF \<and> well_formed r
              | _ \<Rightarrow> False)
      else False)"

definition uri_decodes :: "string \<Rightarrow> bool" where
  "uri_decodes p = (case unescape p of None \<Rightarrow> False | Some xs \<Rightarrow> well_formed xs)"

text \<open>
  The error of a path that does not decode: the \<^verbatim>\<open>URIError\<close> of \<^verbatim>\<open>decodeURIComponent\<close>,
  which the router gives a new message and the status 400.
\<close>

definition decode_failed :: "string \<Rightarrow> string \<Rightarrow> js_error" where
  "decode_failed fr p =
     \<lparr>name = ''URIError'',
      message = ''Failed to decode param '' @ [CHR 0x27] @ p @ [CHR 0x27],
      status = Some 400,
      stack = ''URIError: URI malformed'' @ fr\<rparr>"

text \<open>
  Matching a route's path against the request's path. The path \<^verbatim>\<open>*\<close> matches every path
  and keeps the decoded path as a parameter, so the match fails with an error when the
  path does not decode. The paths of the other routes here have no parameters.
\<close>

datatype matched = Match | NoMatch | MatchError js_error

definition route_match :: "string \<Rightarrow> string \<Rightarrow> string \<Rightarrow> matched" where
  "route_match fr pat p =
     (if pat = ''*''
      then (if uri_decodes p then Match else MatchError (decode_failed fr p))
      else if path_matches pat p then Match else NoMatch)"

fun with_log :: "logline list \<Rightarrow> logline list \<times> outcome \<Rightarrow> logline list \<times> outcome" where
  "with_log lg (lg', out) = (lg @ lg', out)"

text \<open>An exception nothing catches reaches the handler of lines 190 to 195.\<close>

definition crash :: "js_error \<Rightarrow> logline list \<times> outcome" where
  "crash err = (fst (uncaughtException err), Exited (snd (uncaughtException err)))"

text \<open>
  The router's walk. The path of a route is matched before its method is looked at, and
  an error of the match is passed on like any other; a route is skipped while an error is
  passed on.
\<close>

fun run ::
  "string \<Rightarrow> (handler \<times> layer) list \<Rightarrow> js_error option \<Rightarrow> request \<Rightarrow> logline list \<times> outcome"
where
  "run fr [] err req = ([], Unhandled err)"
| "run fr ((h, Use f) # ls) None req =
     (case f req of
        (lg, Next) \<Rightarrow> with_log lg (run fr ls None req)
      | (lg, Fail e) \<Rightarrow> with_log lg (run fr ls (Some e) req)
      | (lg, Reply r) \<Rightarrow> (lg, Served h r)
      | (lg, Uncaught e) \<Rightarrow> with_log lg (crash e))"
| "run fr ((h, Use f) # ls) (Some e) req = run fr ls (Some e) req"
| "run fr ((h, Get pat f) # ls) None req =
     (case route_match fr pat (path req) of
        MatchError e \<Rightarrow> run fr ls (Some e) req
      | NoMatch \<Rightarrow> run fr ls None req
      | Match \<Rightarrow>
          if handles_get (req_method req)
          then (case f req of
                  (lg, Next) \<Rightarrow> with_log lg (run fr ls None req)
                | (lg, Fail e) \<Rightarrow> with_log lg (run fr ls (Some e) req)
                | (lg, Reply r) \<Rightarrow> (lg, Served h r)
                | (lg, Uncaught e) \<Rightarrow> with_log lg (crash e))
          else run fr ls None req)"
| "run fr ((h, Get pat f) # ls) (Some e) req = run fr ls (Some e) req"
| "run fr ((h, UseError f) # ls) None req = run fr ls None req"
| "run fr ((h, UseError f) # ls) (Some e) req =
     (case f e req of
        (lg, Next) \<Rightarrow> with_log lg (run fr ls None req)
      | (lg, Fail e') \<Rightarrow> with_log lg (run fr ls (Some e') req)
      | (lg, Reply r) \<Rightarrow> (lg, Served h r)
      | (lg, Uncaught e') \<Rightarrow> with_log lg (crash e'))"

text \<open>
  \<^verbatim>\<open>express.static(build)\<close>: a request with a method other than GET and HEAD is passed
  on; what the package does with a GET or HEAD request (a file is sent, a directory is
  redirected, a path it cannot serve is passed on) is an input.
\<close>

definition static :: "(string \<Rightarrow> step) \<Rightarrow> request \<Rightarrow> logline list \<times> step" where
  "static served req =
     (if handles_get (req_method req) then ([], served (path req)) else ([], Next))"

text \<open>The layers, in the order of their registration, under the source's headings.\<close>

definition middleware :: "env \<Rightarrow> world \<Rightarrow> (handler \<times> layer) list" where
  "middleware env w =
     [(Cors, Use (cors env (frames w))),
      (JsonParser, Use (\<lambda>req. body_parser (jsonError req))),
      (UrlencodedParser, Use (\<lambda>req. body_parser (formError req))),
      (Logger, Use (\<lambda>req. (logger (logTime w) req, Next)))]"

definition api_routes :: "env \<Rightarrow> world \<Rightarrow> (handler \<times> layer) list" where
  "api_routes env w =
     [(Root, Get ''/'' (sending (frames w) (root env (respTime w)))),
      (Health, Get ''/health'' (sending (frames w) (health env (respTime w) (uptime w)))),
      (Okok, Get ''/okok'' (sending (frames w) (okok env (respTime w)))),
      (ApiConfig, Get ''/api/config'' (sending (frames w) (api_config env (respTime w)))),
      (ApiTest, Get ''/api/test'' (sending (frames w) (api_test env (respTime w))))]"

definition react_frontend :: "world \<Rightarrow> (handler \<times> layer) list" where
  "react_frontend w =
     [(Static, Use (static (assets w))),
      (SpaFallback, Get ''*'' (spa_fallback w))]"

definition tails :: "env \<Rightarrow> world \<Rightarrow> (handler \<times> layer) list" where
  "tails env w =
     [(NotFound, Use (sending (frames w) not_found)),
      (ErrorHandler, UseError (error_handler env (frames w) (respTime w)))]"

definition app :: "env \<Rightarrow> world \<Rightarrow> (handler \<times> layer) list" where
  "app env w = middleware env w @ api_routes env w @ react_frontend w @ tails env w"

definition handle :: "env \<Rightarrow> world \<Rightarrow> request \<Rightarrow> logline list \<times> outcome" where
  "handle env w req = run (frames w) (app env w) None req"

text \<open>The request passes the cross-origin layer and the body parsers.\<close>

definition let_through :: "env \<Rightarrow> world \<Rightarrow> request \<Rightarrow> bool" where
  "let_through env w req =
     (snd (cors env (frames w) req) = Next \<and> jsonError req = None \<and> formError req = None)"

text \<open>The path is matched by one of the five routes registered before the static directory.\<close>

definition registered_route :: "string \<Rightarrow> bool" where
  "registered_route p =
     (path_matches ''/'' p \<or> path_matches ''/health'' p \<or> path_matches ''/okok'' p
      \<or> path_matches ''/api/config'' p \<or> path_matches ''/api/test'' p)"

section \<open>Example inputs\<close>

definition production :: env where
  "production = [''NODE_ENV'' \<mapsto> ''production'']"

definition quiet_world :: world where
  "quiet_world =
     \<lparr>logTime = ''2024-01-01T00:00:00.000Z'', respTime = ''2024-01-01T00:00:00.001Z'',
      uptime = 1, assets = (\<lambda>p. Next), entryDoc = Inr ''<!doctype html>'',
      interrupted = None, revalidation = Sent \<lparr>code = 304, payload = NoBody\<rparr>,
      frames = []\<rparr>"

definition enoent :: js_error where
  "enoent =
     \<lparr>name = ''NotFoundError'', message = ''ENOENT: no such file or directory'',
      status = Some 404, stack = []\<rparr>"

definition econnaborted :: js_error where
  "econnaborted =
     \<lparr>name = ''Error'', message = ''Request aborted'', status = None, stack = []\<rparr>"

definition missing_entry :: world where
  "missing_entry = quiet_world\<lparr>entryDoc := Inl enoent\<rparr>"

definition broken_transfer :: world where
  "broken_transfer = quiet_world\<lparr>interrupted := Some econnaborted\<rparr>"

definition plain_request :: "string \<Rightarrow> string \<Rightarrow> request" where
  "plain_request m p =
     \<lparr>req_method = m, path = p, origin = None, jsonError = None, formError = None,
      conditional = None\<rparr>"

definition failure :: "int option \<Rightarrow> js_error" where
  "failure s = \<lparr>name = ''Error'', message = ''boom'', status = s, stack = []\<rparr>"

section \<open>The allowed origins and the policy\<close>

text \<open>The array of line 11 after the filter, entry by entry.\<close>

lemma allowedOrigins_array:
  "allowedOrigins env =
     [''http://localhost:3000'', ''http://localhost:5000'']
     @ (if truthy (env ''FRONTEND_URL'') then [the (env ''FRONTEND_URL'')] else [])
     @ [''https://reaxapp.vercel.app/'']"
  by (simp add: allowedOrigins_def)

text \<open>
  C3. The origins the policy allows are the two local origins, the production origin and
  the value of \<^verbatim>\<open>FRONTEND_URL\<close> when that variable holds a non-empty string; the empty
  string is never among them. The statement is about the set of the array's entries, which
  is all that line 22 reads; the array itself repeats an entry when \<^verbatim>\<open>FRONTEND_URL\<close>
  equals one of the fixed origins.
\<close>

theorem allowedOrigins_set:
  "set (allowedOrigins env) =
     {''http://localhost:3000'', ''http://localhost:5000'', ''https://reaxapp.vercel.app/''}
     \<union> (case env ''FRONTEND_URL'' of
          None \<Rightarrow> {}
        | Some u \<Rightarrow> if u = [] then {} else {u})
   \<and> [] \<notin> set (allowedOrigins env)"
  by (cases "env ''FRONTEND_URL''") (auto simp: allowedOrigins_def)

text \<open>
  C9. A request without an origin header is allowed by the policy in every environment,
  and the cross-origin layer never passes an error on for it.
\<close>

theorem corsOrigin_no_origin:
  "corsOrigin env fr None = ([], Inr True)
   \<and> snd (cors env fr (req\<lparr>origin := None\<rparr>)) \<noteq> Fail e"
  by (simp add: corsOrigin_def cors_def)

text \<open>
  C1, as the code has it. For a non-empty origin outside the allowed origins, the policy
  allows the request when \<^verbatim>\<open>NODE_ENV\<close> is \<^verbatim>\<open>development\<close>; otherwise it logs the origin
  and hands the error \<^verbatim>\<open>Not allowed by CORS\<close> to its callback. (An origin header with an
  empty value is falsy at line 20 and is treated as no header.)
\<close>

theorem corsOrigin_outside_allowed:
  assumes "orig \<noteq> []" and "orig \<notin> set (allowedOrigins env)"
  shows "corsOrigin env fr (Some orig) =
           (if env ''NODE_ENV'' = Some ''development'' then ([], Inr True)
            else ([Log [S ''Blocked origin:'', S orig]],
                  Inl (new_Error fr ''Not allowed by CORS'')))"
  using assms by (simp add: corsOrigin_def)

theorem corsOrigin_outside_allowed_witness:
  "corsOrigin production [] (Some ''https://evil.example'')
     = ([Log [S ''Blocked origin:'', S ''https://evil.example'']],
        Inl (new_Error [] ''Not allowed by CORS''))
   \<and> corsOrigin [''NODE_ENV'' \<mapsto> ''development''] [] (Some ''https://evil.example'')
     = ([], Inr True)"
proof -
  have ne: "''https://evil.example'' \<noteq> []"
    by simp
  have out: "''https://evil.example'' \<notin> set (allowedOrigins production)"
    by (simp add: allowedOrigins_def production_def)
  have out': "''https://evil.example'' \<notin> set (allowedOrigins [''NODE_ENV'' \<mapsto> ''development''])"
    by (simp add: allowedOrigins_def)
  show ?thesis
    using corsOrigin_outside_allowed[OF ne out, of "[]"]
      corsOrigin_outside_allowed[OF ne out', of "[]"]
    by (simp add: production_def)
qed

text \<open>
  C1 as written fails for an origin header with an empty value: it is outside the
  allowed origins, the environment is not \<^verbatim>\<open>development\<close>, and the request is allowed
  with nothing logged.
\<close>

theorem corsOrigin_empty_origin_allowed:
  "[] \<notin> set (allowedOrigins production)
   \<and> production ''NODE_ENV'' \<noteq> Some ''development''
   \<and> corsOrigin production [] (Some []) = ([], Inr True)"
  by (simp add: corsOrigin_def allowedOrigins_def production_def)

text \<open>An origin header with an empty value is allowed in every environment.\<close>

lemma corsOrigin_empty_origin: "corsOrigin env fr (Some []) = ([], Inr True)"
  by (simp add: corsOrigin_def)

section \<open>The fixed configuration bundle and the phone number\<close>


text \<open>
  C4, as the code has it. The \<open>tfn\<close> field of \<^verbatim>\<open>GET /okok\<close> is the value of
  \<^verbatim>\<open>PHONE_NUMBER\<close> when that variable holds a non-empty string, and the literal
  \<^verbatim>\<open>855-550-2644\<close> when it is unset or empty.
\<close>

theorem okok_tfn:
  "body_field ''tfn'' (snd (okok env now req))
     = Some (JStr (case env ''PHONE_NUMBER'' of
                     None \<Rightarrow> ''855-550-2644''
                   | Some p \<Rightarrow> if p = [] then ''855-550-2644'' else p))"
  by (simp add: okok_def res_json_def split: option.splits)

text \<open>
  C4 as written fails when \<^verbatim>\<open>PHONE_NUMBER\<close> is set to the empty string: the field
  is the literal, not the configured (empty) string.
\<close>

theorem okok_tfn_empty_phone:
  "[''PHONE_NUMBER'' \<mapsto> []] ''PHONE_NUMBER'' = Some []
   \<and> body_field ''tfn''
        (snd (okok [''PHONE_NUMBER'' \<mapsto> []] ''2024-01-01T00:00:00.000Z''
               (plain_request ''GET'' ''/okok'')))
     = Some (JStr ''855-550-2644'')"
  by (simp add: okok_def res_json_def)

text \<open>
  C10, as the code has it. In one environment, the \<open>tfn\<close> field of \<^verbatim>\<open>GET /okok\<close> and the
  \<open>phoneNumber\<close> field of \<^verbatim>\<open>GET /api/config\<close> are equal, whatever the two requests and
  clock readings are, and both follow one rule: the value of \<^verbatim>\<open>PHONE_NUMBER\<close> when that
  variable holds a non-empty string, and the literal \<^verbatim>\<open>855-550-2644\<close> when it is unset or
  empty.
\<close>

theorem okok_api_config_same_phone:
  "body_field ''tfn'' (snd (okok env now req))
     = body_field ''phoneNumber'' (snd (api_config env now' req'))
   \<and> body_field ''phoneNumber'' (snd (api_config env now' req'))
     = Some (JStr (case env ''PHONE_NUMBER'' of
                     None \<Rightarrow> ''855-550-2644''
                   | Some p \<Rightarrow> if p = [] then ''855-550-2644'' else p))"
  by (simp add: okok_def api_config_def res_json_def split: option.splits)

text \<open>
  C10 as written fails when \<^verbatim>\<open>PHONE_NUMBER\<close> is set to the empty string: the variable
  is set, and both fields are the literal, not the configured (empty) string.
\<close>

theorem api_config_empty_phone:
  "[''PHONE_NUMBER'' \<mapsto> []] ''PHONE_NUMBER'' = Some []
   \<and> body_field ''phoneNumber''
        (snd (api_config [''PHONE_NUMBER'' \<mapsto> []] ''2024-01-01T00:00:00.000Z''
               (plain_request ''GET'' ''/api/config'')))
     = Some (JStr ''855-550-2644'')
   \<and> body_field ''tfn''
        (snd (okok [''PHONE_NUMBER'' \<mapsto> []] ''2024-01-01T00:00:00.000Z''
               (plain_request ''GET'' ''/okok'')))
     = Some (JStr ''855-550-2644'')"
  by (simp add: okok_def api_config_def res_json_def)

section \<open>The error tail\<close>

text \<open>
  C5, as the code has it. The error handler writes its two console lines and answers
  with the status \<^verbatim>\<open>err.status || 500\<close>: the error's status when it has one other than 0,
  and 500 when it has none or the status is 0. When that status is between 200 and 999
  and is not 204, 205 or 304, the request is not a HEAD request and is not a fresh GET
  request answered with a 2xx status, the answer is a JSON object with that status whose
  \<open>message\<close> is the error's message when \<^verbatim>\<open>NODE_ENV\<close> is \<^verbatim>\<open>development\<close> and
  \<^verbatim>\<open>Something went wrong\<close> otherwise, and whose \<open>timestamp\<close> is the clock reading.
\<close>

theorem error_handler_envelope:
  assumes "s = (case status err of None \<Rightarrow> 500 | Some c \<Rightarrow> if c = 0 then 500 else c)"
    and "200 \<le> s" and "s \<le> 999" and "s \<notin> {204, 205, 304}"
    and "req_method req \<noteq> ''HEAD''"
    and "\<not> (fresh req \<and> req_method req = ''GET'' \<and> s < 300)"
  shows "error_handler env fr now err req =
           ([LogError [S (cross_mark @ '' Server Error:''), S (message err)],
             LogError [S (stack err)]],
            Reply \<lparr>code = s,
                   payload = Json (JObj
                     [(''error'', JStr ''Internal Server Error''),
                      (''message'', JStr (if env ''NODE_ENV'' = Some ''development''
                                           then message err else ''Something went wrong'')),
                      (''timestamp'', JStr now)])\<rparr>)"
proof -
  from assms(1) have s: "status_or (status err) 500 = s"
    by (cases "status err") simp_all
  from assms(2-6) show ?thesis
    unfolding error_handler_def s res_status_json_def
    by (auto simp: res_send_def Let_def bodiless_def handles_get_def)
qed

theorem error_handler_envelope_witness:
  "snd (error_handler production [] ''2024-01-01T00:00:00.001Z'' (failure (Some 404))
         (plain_request ''GET'' ''/missing''))
     = Reply \<lparr>code = 404,
              payload = Json (JObj
                [(''error'', JStr ''Internal Server Error''),
                 (''message'', JStr ''Something went wrong''),
                 (''timestamp'', JStr ''2024-01-01T00:00:00.001Z'')])\<rparr>
   \<and> snd (error_handler [''NODE_ENV'' \<mapsto> ''development''] [] ''2024-01-01T00:00:00.001Z''
           (failure None) (plain_request ''POST'' ''/okok''))
     = Reply \<lparr>code = 500,
              payload = Json (JObj
                [(''error'', JStr ''Internal Server Error''),
                 (''message'', JStr ''boom''),
                 (''timestamp'', JStr ''2024-01-01T00:00:00.001Z'')])\<rparr>"
proof -
  have a: "(404::int) = (case status (failure (Some 404)) of
      None \<Rightarrow> 500 | Some c \<Rightarrow> if c = 0 then 500 else c)"
    by (simp add: failure_def)
  have b: "(500::int) = (case status (failure None) of
      None \<Rightarrow> 500 | Some c \<Rightarrow> if c = 0 then 500 else c)"
    by (simp add: failure_def)
  have m: "req_method (plain_request ''GET'' ''/missing'') \<noteq> ''HEAD''"
    "req_method (plain_request ''POST'' ''/okok'') \<noteq> ''HEAD''"
    by (simp_all add: plain_request_def)
  have f: "\<not> (fresh (plain_request ''GET'' ''/missing'')
      \<and> req_method (plain_request ''GET'' ''/missing'') = ''GET'' \<and> (404::int) < 300)"
    "\<not> (fresh (plain_request ''POST'' ''/okok'')
      \<and> req_method (plain_request ''POST'' ''/okok'') = ''GET'' \<and> (500::int) < 300)"
    by (simp_all add: fresh_def plain_request_def)
  from error_handler_envelope[OF a _ _ _ m(1) f(1), of production "[]" "''2024-01-01T00:00:00.001Z''"]
    error_handler_envelope[OF b _ _ _ m(2) f(2), of "[''NODE_ENV'' \<mapsto> ''development'']" "[]"
      "''2024-01-01T00:00:00.001Z''"]
  show ?thesis
    by (simp add: production_def failure_def)
qed

text \<open>
  C5 as written fails. An error whose status is 0 has a status and is answered with 500.
  For a status of 99 the call that sends the answer throws, so no envelope is sent and the
  error goes on to the framework's final handler. A status of 204 is answered without a
  body, and so is any error on a HEAD request: a HEAD request from an origin the policy
  rejects reaches the handler through the chain and gets status 500 and no body. A fresh
  GET request whose error has status 200 is answered 304 without a body.
\<close>

theorem error_handler_other_answers:
  "snd (error_handler production [] ''2024-01-01T00:00:00.001Z'' (failure (Some 0))
         (plain_request ''GET'' ''/''))
     = Reply \<lparr>code = 500,
              payload = Json (JObj
                [(''error'', JStr ''Internal Server Error''),
                 (''message'', JStr ''Something went wrong''),
                 (''timestamp'', JStr ''2024-01-01T00:00:00.001Z'')])\<rparr>
   \<and> snd (error_handler production [] ''2024-01-01T00:00:00.001Z'' (failure (Some 99))
           (plain_request ''GET'' ''/''))
     = Fail (invalid_status_code [] 99)
   \<and> snd (error_handler production [] ''2024-01-01T00:00:00.001Z'' (failure (Some 204))
           (plain_request ''GET'' ''/''))
     = Reply \<lparr>code = 204, payload = NoBody\<rparr>
   \<and> snd (error_handler production [] ''2024-01-01T00:00:00.001Z'' (failure None)
           (plain_request ''HEAD'' ''/''))
     = Reply \<lparr>code = 500, payload = NoBody\<rparr>
   \<and> snd (handle production quiet_world
           ((plain_request ''HEAD'' ''/'')\<lparr>origin := Some ''https://evil.example''\<rparr>))
     = Served ErrorHandler \<lparr>code = 500, payload = NoBody\<rparr>
   \<and> snd (error_handler production [] ''2024-01-01T00:00:00.001Z'' (failure (Some 200))
           ((plain_request ''GET'' ''/'')\<lparr>conditional := Some True\<rparr>))
     = Reply \<lparr>code = 304, payload = NoBody\<rparr>"
  by (simp add: error_handler_def res_send_def res_status_json_def Let_def bodiless_def
      fresh_def handles_get_def failure_def plain_request_def production_def quiet_world_def
      handle_def app_def middleware_def api_routes_def react_frontend_def tails_def
      cors_def corsOrigin_def allowedOrigins_def new_Error_def)

section \<open>Walking the chain\<close>

lemma with_log_Nil: "with_log [] x = x"
  by (cases x) simp

lemma snd_with_log: "snd (with_log lg x) = snd x"
  by (cases x) simp

lemma cors_step: "snd (cors env fr req) = Next \<Longrightarrow> cors env fr req = ([], Next)"
  by (auto simp: cors_def corsOrigin_def split: if_splits)

lemma cors_cases:
  "cors env fr req = ([], Next)
   \<or> cors env fr req = ([], Reply \<lparr>code = 200, payload = Text []\<rparr>)
   \<or> cors env fr req = ([Log [S ''Blocked origin:'', S (the (origin req))]],
        Fail (new_Error fr ''Not allowed by CORS''))"
  by (auto simp: cors_def corsOrigin_def split: if_splits)

text \<open>Sending ends the request or throws at once.\<close>

lemma res_send_cases:
  "(\<exists>r'. res_send fr req r = Reply r') \<or> (\<exists>e. res_send fr req r = Fail e)"
  by (simp add: res_send_def Let_def)

lemma res_send_valid:
  assumes "100 \<le> code r" and "code r \<le> 999"
  shows "\<exists>r'. res_send fr req r = Reply r'"
  using assms by (simp add: res_send_def Let_def)

lemma res_send_plain:
  assumes "\<not> handles_get (req_method req)" and "200 \<le> code r" and "code r \<le> 999"
    and "\<not> bodiless (code r)"
  shows "res_send fr req r = Reply r"
  using assms by (auto simp: res_send_def Let_def handles_get_def)

lemma res_send_500:
  assumes "req_method req \<noteq> ''HEAD''"
  shows "res_send fr req \<lparr>code = 500, payload = b\<rparr> = Reply \<lparr>code = 500, payload = b\<rparr>"
  using assms by (simp add: res_send_def Let_def bodiless_def)

lemma sending_json:
  assumes "code (snd (f req)) = 200"
  shows "\<exists>r'. sending fr f req = (fst (f req), Reply r')"
  using assms res_send_valid[of "snd (f req)" fr req] by (simp add: sending_def)

text \<open>Once an error is passed on, the 404 handler is skipped.\<close>

lemma tails_error:
  "served_by (snd (run fr (tails env w) (Some e) req)) \<noteq> Some NotFound"
proof -
  obtain lg st where eh: "error_handler env (frames w) (respTime w) e req = (lg, st)"
    by (cases "error_handler env (frames w) (respTime w) e req")
  then show ?thesis
    by (cases st) (simp_all add: tails_def crash_def)
qed

lemma run_error_tails:
  "run fr (api_routes env w @ react_frontend w @ tails env w) (Some e) req
     = run fr (tails env w) (Some e) req"
  by (simp add: api_routes_def react_frontend_def)

lemma run_error_not_404:
  "served_by (snd (run fr (api_routes env w @ react_frontend w @ tails env w) (Some e) req))
     \<noteq> Some NotFound"
  by (simp only: run_error_tails tails_error not_False_eq_True)

lemma run_middleware:
  assumes "let_through env w req"
  shows "run fr (middleware env w @ ls) None req
           = with_log (logger (logTime w) req) (run fr ls None req)"
  using assms cors_step[of env "frames w" req]
  by (simp add: middleware_def let_through_def body_parser_def with_log_Nil)

lemma run_middleware_stopped:
  assumes "\<not> let_through env w req"
  shows "served_by (snd (handle env w req)) \<noteq> Some NotFound"
proof -
  consider (pass) "cors env (frames w) req = ([], Next)"
    | (preflight) "cors env (frames w) req = ([], Reply \<lparr>code = 200, payload = Text []\<rparr>)"
    | (blocked) "cors env (frames w) req
        = ([Log [S ''Blocked origin:'', S (the (origin req))]],
           Fail (new_Error (frames w) ''Not allowed by CORS''))"
    using cors_cases by blast
  then show ?thesis
  proof cases
    case pass
    with assms have "jsonError req \<noteq> None \<or> formError req \<noteq> None"
      by (simp add: let_through_def)
    with pass show ?thesis
      by (cases "jsonError req"; cases "formError req")
        (simp_all add: handle_def app_def middleware_def body_parser_def with_log_Nil
          run_error_not_404)
  next
    case preflight
    then show ?thesis
      by (simp add: handle_def app_def middleware_def)
  next
    case blocked
    then show ?thesis
      by (simp add: handle_def app_def middleware_def snd_with_log run_error_not_404)
  qed
qed

text \<open>The five API routes.\<close>

lemma named_route:
  assumes "pat \<noteq> ''*''"
  shows "route_match fr pat p = (if path_matches pat p then Match else NoMatch)"
  using assms by (simp add: route_match_def)

lemma run_api_routes_other:
  assumes "\<not> handles_get (req_method req)"
  shows "run fr (api_routes env w @ ls) None req = run fr ls None req"
  using assms by (simp add: api_routes_def named_route)

lemma run_api_routes_unmatched:
  assumes "\<not> registered_route (path req)"
  shows "run fr (api_routes env w @ ls) None req = run fr ls None req"
  using assms by (simp add: api_routes_def registered_route_def named_route)

lemma run_route_hit:
  assumes "handles_get (req_method req)" and "pat \<noteq> ''*''" and "path_matches pat (path req)"
    and "code (snd (f req)) = 200"
  shows "served_by (snd (run fr ((h, Get pat (sending fr' f)) # ls) None req)) = Some h"
  using assms sending_json[of f req fr']
  by (auto simp: named_route)

lemma run_route_miss:
  assumes "pat \<noteq> ''*''" and "\<not> path_matches pat (path req)"
  shows "run fr ((h, Get pat f) # ls) None req = run fr ls None req"
  using assms by (simp add: named_route)

lemma json_200:
  "code (snd (root env t req)) = 200" "code (snd (health env t u req)) = 200"
  "code (snd (okok env t req)) = 200" "code (snd (api_config env t req)) = 200"
  "code (snd (api_test env t req)) = 200"
  by (simp_all add: root_def health_def okok_def api_config_def api_test_def res_json_def)

lemma run_api_routes_matched:
  assumes g: "handles_get (req_method req)" and "registered_route (path req)"
  shows "served_by (snd (run fr (api_routes env w @ ls) None req))
           \<in> Some ` {Root, Health, Okok, ApiConfig, ApiTest}"
proof -
  have hit: "\<And>h pat f ls. pat \<noteq> ''*'' \<Longrightarrow> path_matches pat (path req) \<Longrightarrow>
      code (snd (f req)) = 200 \<Longrightarrow>
      served_by (snd (run fr ((h, Get pat (sending (frames w) f)) # ls) None req)) = Some h"
    using run_route_hit[OF g] by blast
  have miss: "\<And>h pat f ls. pat \<noteq> ''*'' \<Longrightarrow> \<not> path_matches pat (path req) \<Longrightarrow>
      run fr ((h, Get pat f) # ls) None req = run fr ls None req"
    using run_route_miss by blast
  have ne: "''/'' \<noteq> ''*''" "''/health'' \<noteq> ''*''" "''/okok'' \<noteq> ''*''"
    "''/api/config'' \<noteq> ''*''" "''/api/test'' \<noteq> ''*''"
    by simp_all
  show ?thesis
  proof (cases "path_matches ''/'' (path req)")
    case True
    then show ?thesis
      unfolding api_routes_def append_Cons append_Nil
      by (simp only: hit[OF ne(1) True json_200(1)]) simp
  next
    case r: False
    show ?thesis
    proof (cases "path_matches ''/health'' (path req)")
      case True
      then show ?thesis
        unfolding api_routes_def append_Cons append_Nil
        by (simp only: miss[OF ne(1) r] hit[OF ne(2) True json_200(2)]) simp
    next
      case h: False
      show ?thesis
      proof (cases "path_matches ''/okok'' (path req)")
        case True
        then show ?thesis
          unfolding api_routes_def append_Cons append_Nil
          by (simp only: miss[OF ne(1) r] miss[OF ne(2) h] hit[OF ne(3) True json_200(3)]) simp
      next
        case k: False
        show ?thesis
        proof (cases "path_matches ''/api/config'' (path req)")
          case True
          then show ?thesis
            unfolding api_routes_def append_Cons append_Nil
            by (simp only: miss[OF ne(1) r] miss[OF ne(2) h] miss[OF ne(3) k]
                hit[OF ne(4) True json_200(4)]) simp
        next
          case c: False
          with r h k assms(2) have t: "path_matches ''/api/test'' (path req)"
            by (simp add: registered_route_def)
          show ?thesis
            unfolding api_routes_def append_Cons append_Nil
            by (simp only: miss[OF ne(1) r] miss[OF ne(2) h] miss[OF ne(3) k] miss[OF ne(4) c]
                hit[OF ne(5) t json_200(5)]) simp
        qed
      qed
    qed
  qed
qed

text \<open>
  A GET or HEAD request that reaches the static layer is answered there, by the wildcard
  route or by the error tail, or the process exits.
\<close>

lemma spa_fallback_cases:
  "(\<exists>lg r. spa_fallback w req = (lg, Reply r)) \<or> (\<exists>lg e. spa_fallback w req = (lg, Uncaught e))"
  using res_send_valid[of "\<lparr>code = 500, payload = Text ''Server Error''\<rparr>" "frames w" req]
  by (auto simp: spa_fallback_def split: send_result.splits)

lemma star_route:
  "route_match fr ''*'' p = (if uri_decodes p then Match else MatchError (decode_failed fr p))"
  by (simp add: route_match_def)

lemma run_tails:
  assumes "\<not> handles_get (req_method req)"
  shows "run fr (tails env w) None req
           = (fst (not_found req), Served NotFound (snd (not_found req)))"
  using assms
  by (simp add: tails_def sending_def res_send_plain not_found_def res_status_json_def
      bodiless_def)

lemma run_frontend_get:
  assumes "handles_get (req_method req)"
  shows "served_by (snd (run fr (react_frontend w @ tails env w) None req)) \<noteq> Some NotFound"
proof (cases "assets w (path req)")
  case Next
  show ?thesis
  proof (cases "uri_decodes (path req)")
    case True
    with Next assms spa_fallback_cases[of w req] show ?thesis
      by (auto simp: react_frontend_def static_def star_route with_log_Nil crash_def)
  next
    case False
    with Next assms show ?thesis
      by (simp add: react_frontend_def static_def star_route with_log_Nil tails_error)
  qed
next
  case (Fail e)
  with assms show ?thesis
    by (simp add: react_frontend_def static_def with_log_Nil tails_error)
next
  case (Reply r)
  with assms show ?thesis
    by (simp add: react_frontend_def static_def)
next
  case (Uncaught e)
  with assms show ?thesis
    by (simp add: react_frontend_def static_def crash_def)
qed

lemma run_frontend_other:
  assumes "\<not> handles_get (req_method req)"
  shows "run fr (react_frontend w @ ls) None req
           = (if uri_decodes (path req) then run fr ls None req
              else run fr ls (Some (decode_failed fr (path req))) req)"
  using assms by (simp add: react_frontend_def static_def with_log_Nil star_route)

lemma run_frontend_spa:
  assumes "handles_get (req_method req)" and "assets w (path req) = Next"
    and "uri_decodes (path req)"
  shows "run fr (react_frontend w @ ls) None req
     = (case spa_fallback w req of
          (lg, Next) \<Rightarrow> with_log lg (run fr ls None req)
        | (lg, Fail e) \<Rightarrow> with_log lg (run fr ls (Some e) req)
        | (lg, Reply r) \<Rightarrow> (lg, Served SpaFallback r)
        | (lg, Uncaught e) \<Rightarrow> with_log lg (crash e))"
  using assms
  by (simp add: react_frontend_def static_def star_route with_log_Nil)

lemma handle_other_method:
  assumes "let_through env w req" and "\<not> handles_get (req_method req)"
    and "uri_decodes (path req)"
  shows "snd (handle env w req) = Served NotFound (snd (not_found req))"
  using assms
  by (simp add: handle_def app_def run_middleware run_api_routes_other run_frontend_other
      run_tails snd_with_log)

lemma handle_other_method_undecodable:
  assumes "let_through env w req" and "\<not> handles_get (req_method req)"
    and "\<not> uri_decodes (path req)"
  shows "served_by (snd (handle env w req)) \<noteq> Some NotFound"
  using assms
  by (simp add: handle_def app_def run_middleware run_api_routes_other run_frontend_other
      tails_error snd_with_log)

lemma handle_get_not_404:
  assumes lt: "let_through env w req" and g: "handles_get (req_method req)"
  shows "served_by (snd (handle env w req)) \<noteq> Some NotFound"
proof (cases "registered_route (path req)")
  case True
  from run_api_routes_matched[OF g True, of "frames w" env w "react_frontend w @ tails env w"]
  show ?thesis
    by (auto simp: handle_def app_def run_middleware[OF lt] snd_with_log)
next
  case False
  from run_frontend_get[OF g, of "frames w" w env]
  show ?thesis
    by (simp add: handle_def app_def run_middleware[OF lt] snd_with_log
        run_api_routes_unmatched[OF False])
qed

text \<open>The requests that reach the 404 handler.\<close>

lemma not_found_iff:
  "(served_by (snd (handle env w req)) = Some NotFound)
     = (let_through env w req \<and> \<not> handles_get (req_method req) \<and> uri_decodes (path req))"
  using handle_other_method[of env w req] handle_other_method_undecodable[of env w req]
    handle_get_not_404[of env w req] run_middleware_stopped[of env w req]
  by (metis served_by.simps(1))

section \<open>The 404 tail\<close>

text \<open>
  C7, as the code has it. With the wildcard route in place, no GET request and no HEAD
  request reaches the 404 handler; requests with other methods can, since the wildcard
  route is registered with \<^verbatim>\<open>app.get\<close> and the static layer passes them on. A request
  that reaches it is answered with status 404 and a JSON object whose \<open>message\<close> names
  the request's verb and path and whose \<open>availableEndpoints\<close> lists the five API routes.
\<close>

theorem not_found_reached:
  "(handles_get (req_method req) \<longrightarrow> served_by (snd (handle env w req)) \<noteq> Some NotFound)
   \<and> (served_by (snd (handle env w req)) = Some NotFound \<longrightarrow>
        snd (handle env w req) = Served NotFound (snd (not_found req)))
   \<and> code (snd (not_found req)) = 404
   \<and> body_field ''message'' (snd (not_found req))
        = Some (JStr (''Cannot '' @ req_method req @ '' '' @ path req))
   \<and> body_field ''availableEndpoints'' (snd (not_found req))
        = Some (JArr [JStr ''/'', JStr ''/health'', JStr ''/okok'', JStr ''/api/config'',
                      JStr ''/api/test''])"
proof -
  have get: "handles_get (req_method req) \<longrightarrow>
      served_by (snd (handle env w req)) \<noteq> Some NotFound"
    using not_found_iff[of env w req] by blast
  have resp: "served_by (snd (handle env w req)) = Some NotFound \<longrightarrow>
        snd (handle env w req) = Served NotFound (snd (not_found req))"
    using not_found_iff[of env w req] handle_other_method[of env w req] by blast
  have shape: "code (snd (not_found req)) = 404
     \<and> body_field ''message'' (snd (not_found req))
        = Some (JStr (''Cannot '' @ req_method req @ '' '' @ path req))
     \<and> body_field ''availableEndpoints'' (snd (not_found req))
        = Some (JArr [JStr ''/'', JStr ''/health'', JStr ''/okok'', JStr ''/api/config'',
                      JStr ''/api/test''])"
    by (simp add: not_found_def res_status_json_def availableEndpoints_def)
  from get resp shape show ?thesis by blast
qed

theorem not_found_reached_witness:
  "served_by (snd (handle production quiet_world (plain_request ''GET'' ''/nowhere'')))
     \<noteq> Some NotFound
   \<and> snd (handle production quiet_world (plain_request ''DELETE'' ''/okok''))
       = Served NotFound (snd (not_found (plain_request ''DELETE'' ''/okok'')))"
proof -
  have g: "handles_get (req_method (plain_request ''GET'' ''/nowhere''))"
    by (simp add: handles_get_def plain_request_def)
  have d: "served_by (snd (handle production quiet_world (plain_request ''DELETE'' ''/okok'')))
      = Some NotFound"
    by (simp add: plain_request_def quiet_world_def production_def handle_def app_def
      middleware_def api_routes_def react_frontend_def tails_def cors_def corsOrigin_def
      body_parser_def handles_get_def static_def route_match_def path_matches_def
      strip_slash_def lowerc_def uri_decodes_def sending_def res_send_def Let_def
      not_found_def res_status_json_def bodiless_def)
  from g d not_found_reached[of "plain_request ''GET'' ''/nowhere''" production quiet_world]
    not_found_reached[of "plain_request ''DELETE'' ''/okok''" production quiet_world]
  show ?thesis by blast
qed

text \<open>
  C7 as written fails: with the wildcard route in place, a POST request without an
  origin header reaches the 404 handler.
\<close>

theorem post_reaches_not_found:
  "served_by (snd (handle production quiet_world (plain_request ''POST'' ''/foo'')))
     = Some NotFound"
  by (simp add: plain_request_def quiet_world_def production_def handle_def app_def
      middleware_def api_routes_def react_frontend_def tails_def cors_def corsOrigin_def
      body_parser_def handles_get_def static_def route_match_def path_matches_def
      strip_slash_def lowerc_def uri_decodes_def sending_def res_send_def Let_def
      not_found_def res_status_json_def bodiless_def)

section \<open>The wildcard route\<close>

text \<open>
  C8, as the code has it. Take a GET request that is not conditional, passes the
  cross-origin layer and the body parsers, and asks for a path that decodes, that no
  registered route matches and that the static layer passes on. When the entry document
  is read and the transfer is not interrupted, the request is answered by the wildcard
  route, after the logger's line, with status 200 and the document. When the entry
  document cannot be read, it is answered by the wildcard route with status 500 and the
  text \<^verbatim>\<open>Server Error\<close>, after a console line carrying the error.
\<close>

theorem spa_fallback_serves:
  assumes "req_method req = ''GET''" and "conditional req = None"
    and "let_through env w req" and "uri_decodes (path req)"
    and "\<not> registered_route (path req)" and "assets w (path req) = Next"
  shows "case entryDoc w of
           Inr content \<Rightarrow>
             interrupted w = None \<longrightarrow>
               handle env w req
                 = (logger (logTime w) req,
                    Served SpaFallback \<lparr>code = 200, payload = File content\<rparr>)
         | Inl err \<Rightarrow>
             handle env w req
               = (logger (logTime w) req @ [LogError [S ''Error sending index.html:'', E err]],
                  Served SpaFallback \<lparr>code = 500, payload = Text ''Server Error''\<rparr>)"
proof -
  from assms(1) have g: "handles_get (req_method req)" and h: "req_method req \<noteq> ''HEAD''"
    by (simp_all add: handles_get_def)
  have walk: "handle env w req
      = with_log (logger (logTime w) req)
          (case spa_fallback w req of
             (lg, Next) \<Rightarrow> with_log lg (run (frames w) (tails env w) None req)
           | (lg, Fail e) \<Rightarrow> with_log lg (run (frames w) (tails env w) (Some e) req)
           | (lg, Reply r) \<Rightarrow> (lg, Served SpaFallback r)
           | (lg, Uncaught e) \<Rightarrow> with_log lg (crash e))"
    by (simp add: handle_def app_def run_middleware[OF assms(3)]
        run_api_routes_unmatched[OF assms(5)] run_frontend_spa[OF g assms(6) assms(4)])
  show ?thesis
  proof (cases "entryDoc w")
    case (Inl err)
    with assms(2) h show ?thesis
      by (simp add: walk spa_fallback_def sendFile_def res_send_500)
  next
    case (Inr content)
    with assms(2) h show ?thesis
      by (simp add: walk spa_fallback_def sendFile_def)
  qed
qed

theorem spa_fallback_serves_witness:
  "handle production quiet_world (plain_request ''GET'' ''/dashboard'')
     = ([Log [S ''[2024-01-01T00:00:00.000Z] GET /dashboard - Origin: no-origin'']],
        Served SpaFallback \<lparr>code = 200, payload = File ''<!doctype html>''\<rparr>)
   \<and> handle production missing_entry (plain_request ''GET'' ''/dashboard'')
     = ([Log [S ''[2024-01-01T00:00:00.000Z] GET /dashboard - Origin: no-origin''],
         LogError [S ''Error sending index.html:'', E enoent]],
        Served SpaFallback \<lparr>code = 500, payload = Text ''Server Error''\<rparr>)"
proof -
  let ?r = "plain_request ''GET'' ''/dashboard''"
  have m: "req_method ?r = ''GET''" and c: "conditional ?r = None"
    by (simp_all add: plain_request_def)
  have lt: "let_through production w ?r" for w
    by (simp add: let_through_def cors_def corsOrigin_def plain_request_def)
  have dec: "uri_decodes (path ?r)"
    by (simp add: uri_decodes_def plain_request_def)
  have nr: "\<not> registered_route (path ?r)"
    by (simp add: registered_route_def path_matches_def strip_slash_def lowerc_def
        plain_request_def)
  have na: "assets quiet_world (path ?r) = Next" "assets missing_entry (path ?r) = Next"
    by (simp_all add: quiet_world_def missing_entry_def)
  from spa_fallback_serves[OF m c lt dec nr na(1)] spa_fallback_serves[OF m c lt dec nr na(2)]
  show ?thesis
    by (simp add: quiet_world_def missing_entry_def logger_def plain_request_def)
qed

text \<open>
  C8 as written fails for other requests to such a path. A PUT request is answered by
  the 404 tail. A GET request from an origin the policy rejects is answered by the error
  tail, and so is a GET request for a path that does not decode, with status 400. A
  conditional GET request can be answered 304 without the document. When the transfer
  fails after the response has started, the callback's \<^verbatim>\<open>res.status(500).send\<close> throws,
  nothing catches the exception, and the process exits with code 1.
\<close>

theorem unmatched_path_not_spa:
  "\<not> registered_route ''/dashboard''
   \<and> snd (handle production quiet_world (plain_request ''PUT'' ''/dashboard''))
       = Served NotFound (res_status_json 404 (JObj
           [(''error'', JStr ''Not Found''),
            (''message'', JStr ''Cannot PUT /dashboard''),
            (''availableEndpoints'',
             JArr [JStr ''/'', JStr ''/health'', JStr ''/okok'', JStr ''/api/config'',
                   JStr ''/api/test''])]))
   \<and> snd (handle production quiet_world
            ((plain_request ''GET'' ''/dashboard'')\<lparr>origin := Some ''https://evil.example''\<rparr>))
       = Served ErrorHandler (res_status_json 500 (JObj
           [(''error'', JStr ''Internal Server Error''),
            (''message'', JStr ''Something went wrong''),
            (''timestamp'', JStr ''2024-01-01T00:00:00.001Z'')]))
   \<and> \<not> registered_route ''/%zz''
   \<and> snd (handle production quiet_world (plain_request ''GET'' ''/%zz''))
       = Served ErrorHandler (res_status_json 400 (JObj
           [(''error'', JStr ''Internal Server Error''),
            (''message'', JStr ''Something went wrong''),
            (''timestamp'', JStr ''2024-01-01T00:00:00.001Z'')]))
   \<and> snd (handle production quiet_world
            ((plain_request ''GET'' ''/dashboard'')\<lparr>conditional := Some True\<rparr>))
       = Served SpaFallback \<lparr>code = 304, payload = NoBody\<rparr>
   \<and> snd (handle production broken_transfer (plain_request ''GET'' ''/dashboard''))
       = Exited 1"
  by (simp add: registered_route_def path_matches_def strip_slash_def lowerc_def
      plain_request_def quiet_world_def broken_transfer_def production_def handle_def app_def
      middleware_def api_routes_def react_frontend_def tails_def cors_def corsOrigin_def
      allowedOrigins_def body_parser_def handles_get_def static_def route_match_def
      uri_decodes_def hex_digit_def decode_failed_def sending_def res_send_def fresh_def Let_def
      not_found_def availableEndpoints_def res_status_json_def bodiless_def error_handler_def
      new_Error_def spa_fallback_def sendFile_def crash_def uncaughtException_def)

end
